theory Spec2Isabelle
  imports Complex_Main "HOL-Library.AList"
begin

section \<open>The validator simulation loop of \<^verbatim>\<open>neurons/val_sim.py\<close>\<close>

text \<open>
  The development embeds the body of \<^verbatim>\<open>Miner.run\<close>: the start-up wait, the two
  per-peer evaluation passes of a window (own data, other data), the binary moving
  average, the application of the gathered gradient and the counters.

  Conventions of the embedding.
  \<^item> A tensor is the list of its entries; Python floats are modelled by the reals, so
    every statement about sums, products and quotients is a statement of exact
    arithmetic.
  \<^item> What lives outside the file (the model's forward pass, the DCT codec, the
    learning-rate schedule, the results of \<^verbatim>\<open>comms.gather\<close> and \<^verbatim>\<open>comms.get\<close>, the
    batches a loader yields) is a parameter.
  \<^item> An exception is a value \<open>Inl e\<close>; nothing in \<^verbatim>\<open>run\<close> catches the exceptions
    modelled here, so \<open>Inl e\<close> is the end of the process.
\<close>

subsection \<open>Data\<close>

type_synonym uid = int
type_synonym pname = string
type_synonym tensor = "real list"

text \<open>\<^verbatim>\<open>model.named_parameters()\<close>: the parameters in their fixed order.\<close>
type_synonym named_parameters = "(pname \<times> tensor) list"

text \<open>
  A peer's \<^verbatim>\<open>state_dict\<close>, read only through \<^verbatim>\<open>state_dict.get(key, None)\<close>: a missing
  key and a key bound to \<^verbatim>\<open>None\<close> are both \<open>None\<close>.
\<close>
type_synonym state_dict = "string \<Rightarrow> tensor option"

text \<open>\<^verbatim>\<open>temp_grad\<close> and the \<^verbatim>\<open>p.grad\<close> slots, by parameter name.\<close>
type_synonym grad_dict = "pname \<Rightarrow> tensor option"


datatype error =
    KeyError string
  | ZeroDivisionError
  | RuntimeError string
  | AttributeError string

record 'b env =
  loss :: "named_parameters \<Rightarrow> 'b \<Rightarrow> real"
  decode :: "pname \<Rightarrow> tensor \<Rightarrow> tensor \<Rightarrow> tensor \<Rightarrow> tensor"
  batch_decode :: "pname \<Rightarrow> tensor \<Rightarrow> tensor list \<Rightarrow> tensor list \<Rightarrow> tensor"
  last_lr :: "nat \<Rightarrow> real"

text \<open>
  \<open>loss E m b\<close> is \<^verbatim>\<open>self.model(input_ids=b, labels=..).loss.item()\<close> with the
  parameters \<open>m\<close>; \<open>decode E n p idxs vals\<close> is
  \<^verbatim>\<open>transformer.decode(compressor.decompress(p, idxs, vals, xshapes[n], totalks[n]))\<close>,
  \<open>batch_decode\<close> the same with \<^verbatim>\<open>batch_decompress\<close>; \<open>last_lr E k\<close> is
  \<^verbatim>\<open>scheduler.get_last_lr()[0]\<close> after \<open>k\<close> scheduler steps.
\<close>

record state =
  model :: named_parameters
  model_copy :: named_parameters
  temp_grad :: grad_dict
  grad :: grad_dict
  peers :: "uid list"
  loss_improvement_moving_avg :: "uid \<Rightarrow> real option"
  sync_window :: int
  current_window :: int
  global_step :: nat
  window_step :: nat

text \<open>
  \<open>temp_grad\<close> is a local of \<^verbatim>\<open>run\<close> that is unbound until line 340 binds it; every
  read of it in the source comes after that assignment, so the unbound variable is
  modelled by the empty dictionary.
\<close>

subsection \<open>Loss over at most four batches (lines 321-337, 369-388)\<close>

definition loss_per_batch :: "('b \<Rightarrow> real) \<Rightarrow> 'b list \<Rightarrow> real" where
  "loss_per_batch f loader =
     (let batches = take 4 loader;
          total = foldl (\<lambda>acc b. acc + f b) 0 batches;
          n_batches = length batches
      in if n_batches > 0 then total / real n_batches else 0)"

subsection \<open>The sign step and its revert (lines 340-365, 384-386)\<close>

text \<open>
  \<^verbatim>\<open>p.data.sub_(other, alpha=a)\<close> and \<^verbatim>\<open>p.data.add_(other, alpha=a)\<close>. Torch raises a
  RuntimeError when \<open>other\<close> cannot be broadcast to the shape of \<open>p\<close>; with flattened
  tensors that is a different length (broadcasting itself is not modelled: the codec
  decodes to the shape of the parameter).
\<close>

definition sub_inplace :: "pname \<Rightarrow> tensor \<Rightarrow> tensor \<Rightarrow> real \<Rightarrow> error + tensor" where
  "sub_inplace n p other a =
     (if length other = length p then Inr (map2 (\<lambda>x y. x - a * y) p other)
      else Inl (RuntimeError n))"

definition add_inplace :: "pname \<Rightarrow> tensor \<Rightarrow> tensor \<Rightarrow> real \<Rightarrow> error + tensor" where
  "add_inplace n p other a =
     (if length other = length p then Inr (map2 (\<lambda>x y. x + a * y) p other)
      else Inl (RuntimeError n))"

fun apply_trial ::
  "'b env \<Rightarrow> real \<Rightarrow> state_dict \<Rightarrow> named_parameters \<Rightarrow> grad_dict
     \<Rightarrow> error + (named_parameters \<times> grad_dict)" where
  "apply_trial E a sd [] tg = Inr ([], tg)"
| "apply_trial E a sd ((n, p) # rest) tg =
     (let idxs = sd (n @ ''idxs''); vals = sd (n @ ''vals'') in
      if idxs \<noteq> None \<and> vals \<noteq> None then
        (let g = decode E n p (the idxs) (the vals) in
         case sub_inplace n p (map sgn g) a of
           Inl e \<Rightarrow> Inl e
         | Inr p' \<Rightarrow>
             (case apply_trial E a sd rest (tg(n \<mapsto> g)) of
                Inl e \<Rightarrow> Inl e
              | Inr (rest', tg') \<Rightarrow> Inr ((n, p') # rest', tg')))
      else
        (case apply_trial E a sd rest tg of
           Inl e \<Rightarrow> Inl e
         | Inr (rest', tg') \<Rightarrow> Inr ((n, p) # rest', tg')))"

text \<open>
  The revert loop reads \<^verbatim>\<open>temp_grad[n]\<close> by subscription for every parameter of the
  model: a name that is not a key raises KeyError. A stored gradient is never
  \<^verbatim>\<open>None\<close>, so the test \<^verbatim>\<open>is not None\<close> holds for every key.
\<close>

fun revert_trial :: "real \<Rightarrow> grad_dict \<Rightarrow> named_parameters \<Rightarrow> error + named_parameters" where
  "revert_trial a tg [] = Inr []"
| "revert_trial a tg ((n, p) # rest) =
     (case tg n of
        None \<Rightarrow> Inl (KeyError n)
      | Some g \<Rightarrow>
          (case add_inplace n p (map sgn g) a of
             Inl e \<Rightarrow> Inl e
           | Inr p' \<Rightarrow>
               (case revert_trial a tg rest of
                  Inl e \<Rightarrow> Inl e
                | Inr rest' \<Rightarrow> Inr ((n, p') # rest'))))"

subsection \<open>Loss improvement (line 392)\<close>

definition improvement :: "real \<Rightarrow> real \<Rightarrow> error + real" where
  "improvement loss_after_per_batch loss_before_per_batch =
     (if loss_before_per_batch = 0 then Inl ZeroDivisionError
      else Inr (100 * (1 - loss_after_per_batch / loss_before_per_batch)))"

subsection \<open>One peer's evaluation (lines 316-393 and 419-496)\<close>

text \<open>
  \<open>before\<close> and \<open>after\<close> are the batches the two enumerations of \<^verbatim>\<open>loader\<close> yield.
  Both losses are computed with \<^verbatim>\<open>self.model\<close>, whose parameters the trial changes
  in place; \<^verbatim>\<open>model_copy\<close> only receives \<^verbatim>\<open>train()\<close> and \<^verbatim>\<open>zero_grad()\<close>, which
  leave its parameters as they are.
\<close>

definition evaluate_peer ::
  "'b env \<Rightarrow> real \<Rightarrow> state_dict \<Rightarrow> 'b list \<Rightarrow> 'b list \<Rightarrow> state \<Rightarrow> error + (state \<times> real)" where
  "evaluate_peer E lr sd before after st =
     (let loss_before_per_batch = loss_per_batch (loss E (model st)) before in
      case apply_trial E (lr * 0.25) sd (model st) (temp_grad st) of
        Inl e \<Rightarrow> Inl e
      | Inr (m1, tg1) \<Rightarrow>
          (let loss_after_per_batch = loss_per_batch (loss E m1) after in
           case revert_trial (lr * 0.25) tg1 m1 of
             Inl e \<Rightarrow> Inl e
           | Inr m2 \<Rightarrow>
               (case improvement loss_after_per_batch loss_before_per_batch of
                  Inl e \<Rightarrow> Inl e
                | Inr imp \<Rightarrow> Inr (st\<lparr>model := m2, temp_grad := tg1\<rparr>, imp))))"

text \<open>
  The loop over \<^verbatim>\<open>self.peers\<close>. In the own-data pass (\<open>own = True\<close>) line 340 rebinds
  \<^verbatim>\<open>temp_grad = {}\<close> for every evaluated peer; the other-data pass has no such line
  and goes on with the dictionary as the previous evaluation left it. The result
  dictionary keeps Python's insertion order.
\<close>

fun eval_pass ::
  "'b env \<Rightarrow> real \<Rightarrow> bool \<Rightarrow> (uid \<Rightarrow> state_dict option) \<Rightarrow> (uid \<Rightarrow> 'b list \<times> 'b list)
     \<Rightarrow> uid list \<Rightarrow> state \<Rightarrow> (uid \<times> real) list \<Rightarrow> error + (state \<times> (uid \<times> real) list)" where
  "eval_pass E lr own eval_result loader [] st li = Inr (st, li)"
| "eval_pass E lr own eval_result loader (eval_uid # rest) st li =
     (case eval_result eval_uid of
        None \<Rightarrow> eval_pass E lr own eval_result loader rest st li
      | Some sd \<Rightarrow>
          (case evaluate_peer E lr sd (fst (loader eval_uid)) (snd (loader eval_uid))
                  (if own then st\<lparr>temp_grad := Map.empty\<rparr> else st) of
             Inl e \<Rightarrow> Inl e
           | Inr (st', imp) \<Rightarrow>
               eval_pass E lr own eval_result loader rest st' (AList.update eval_uid imp li)))"

subsection \<open>Binary moving average (lines 510-522)\<close>

definition alpha :: real where
  "alpha = 0.05"

definition binary_value :: "real \<Rightarrow> real \<Rightarrow> real" where
  "binary_value own other = (if other < own then 1 else - 1)"

definition prev_avg :: "(uid \<Rightarrow> real option) \<Rightarrow> uid \<Rightarrow> real" where
  "prev_avg avg u = (case avg u of Some v \<Rightarrow> v | None \<Rightarrow> 0)"

definition update_avg :: "(uid \<Rightarrow> real option) \<Rightarrow> uid \<Rightarrow> real \<Rightarrow> (uid \<Rightarrow> real option)" where
  "update_avg avg u bv = avg(u \<mapsto> (1 - alpha) * prev_avg avg u + alpha * bv)"

text \<open>The loop over the items of \<^verbatim>\<open>loss_improvement\<close>.\<close>

fun update_moving_avg ::
  "(uid \<times> real) list \<Rightarrow> (uid \<times> real) list \<Rightarrow> (uid \<Rightarrow> real option) \<Rightarrow> (uid \<Rightarrow> real option)" where
  "update_moving_avg [] loss_improvement_other avg = avg"
| "update_moving_avg ((u, own) # rest) loss_improvement_other avg =
     (case map_of loss_improvement_other u of
        None \<Rightarrow> update_moving_avg rest loss_improvement_other avg
      | Some other \<Rightarrow>
          update_moving_avg rest loss_improvement_other
            (update_avg avg u (binary_value own other)))"


subsection \<open>The gathered gradient and the optimizer step (lines 559-594)\<close>





subsection \<open>One iteration of the main loop (lines 244-598)\<close>


text \<open>What the iteration logs: the two result dictionaries, and the parameters whose
  gradient came from the gather.\<close>

record report =
  loss_improvement :: "(uid \<times> real) list"
  loss_improvement_other :: "(uid \<times> real) list"
  aggregated :: "pname list"


subsection \<open>The start-up wait and the main loop (lines 239-244)\<close>



subsection \<open>Concrete inputs for the examples\<close>

text \<open>
  A model whose loss on a batch \<open>b\<close> is \<open>b\<close> times the sum of its parameter
  entries, a codec that decodes an update to its values, and a constant learning rate 4
  (so that the trial step \<open>lr * 0.25\<close> is 1). \<open>demo_state m c tg ps\<close> is the state with
  parameters \<open>m\<close>, copy \<open>c\<close>, trial gradients \<open>tg\<close> and peers \<open>ps\<close>, no
  \<^verbatim>\<open>p.grad\<close> set, no score yet, and both window counters at 5.
\<close>

definition demo_env :: "real env" where
  "demo_env =
     \<lparr>loss = (\<lambda>m b. b * sum_list (concat (map snd m))),
      decode = (\<lambda>n p idxs vals. vals),
      batch_decode = (\<lambda>n p idxs vals. p),
      last_lr = (\<lambda>k. 4)\<rparr>"

definition demo_state :: "named_parameters \<Rightarrow> named_parameters \<Rightarrow> grad_dict \<Rightarrow> uid list \<Rightarrow> state" where
  "demo_state m c tg ps =
     \<lparr>model = m, model_copy = c, temp_grad = tg, grad = Map.empty, peers = ps,
      loss_improvement_moving_avg = Map.empty, sync_window = 5, current_window = 5,
      global_step = 0, window_step = 0\<rparr>"

section \<open>The binary moving average\<close>







lemma update_moving_avg_other_key:
  "u \<notin> fst ` set li \<Longrightarrow> update_moving_avg li lio avg u = avg u"
  by (induction li lio avg rule: update_moving_avg.induct)
     (auto simp: update_avg_def split: option.splits)


text \<open>
  Claim C4. The score update is \<open>score = (1 - \<alpha>) * prevScore + \<alpha> * signal\<close> with
  \<open>\<alpha> = 0.05\<close>, where the previous score of a peer that was never updated is 0; in
  particular the first update of a peer with signal +1 gives 0.05.
\<close>

theorem moving_avg_update_rule:
  "update_avg avg u s u =
     Some ((1 - 0.05) * (case avg u of None \<Rightarrow> 0 | Some prev \<Rightarrow> prev) + 0.05 * s)
   \<and> update_avg Map.empty u 1 u = Some 0.05"
  by (simp add: update_avg_def prev_avg_def alpha_def)

text \<open>
  Claim C2, as amended. For every peer that has a result in both dictionaries, the
  signal fed into the moving average is +1 when the own-data improvement is strictly
  greater than the other-data improvement and -1 otherwise; when the two improvements
  are equal the signal is -1.
\<close>

theorem binary_value_strict:
  "distinct (map fst li) \<Longrightarrow> map_of li u = Some own \<Longrightarrow> map_of lio u = Some other \<Longrightarrow>
   update_moving_avg li lio avg u =
     Some ((1 - alpha) * prev_avg avg u + alpha * (if other < own then 1 else - 1))"
proof (induction li arbitrary: avg)
  case Nil
  then show ?case by simp
next
  case (Cons a li)
  obtain v x where a: "a = (v, x)" by (cases a)
  show ?case
  proof (cases "v = u")
    case True
    with Cons.prems a have x: "x = own" and nin: "u \<notin> fst ` set li" by auto
    show ?thesis using a True x Cons.prems(3)
      by (simp add: update_moving_avg_other_key [OF nin] update_avg_def binary_value_def)
  next
    case False
    with Cons.prems a have d: "distinct (map fst li)" and m: "map_of li u = Some own" by auto
    have p: "prev_avg (update_avg avg v s) u = prev_avg avg u" for s
      using False by (simp add: prev_avg_def update_avg_def)
    show ?thesis using a False Cons.IH [OF d m Cons.prems(3)] p
      by (simp split: option.splits)
  qed
qed

theorem binary_value_strict_witness:
  "distinct (map fst [(1 :: uid, 50 :: real), (2, 10)])
   \<and> map_of [(1 :: uid, 50 :: real), (2, 10)] 2 = Some 10
   \<and> map_of [(2 :: uid, 10 :: real)] 2 = Some 10
   \<and> update_moving_avg [(1, 50), (2, 10)] [(2, 10)] Map.empty 2 = Some (- 0.05)"
proof -
  have h1: "distinct (map fst [(1 :: uid, 50 :: real), (2, 10)])" by simp
  have h2: "map_of [(1 :: uid, 50 :: real), (2, 10)] 2 = Some 10" by simp
  have h3: "map_of [(2 :: uid, 10 :: real)] 2 = Some 10" by simp
  from binary_value_strict [OF h1 h2 h3, of Map.empty] h1 h2 h3 show ?thesis
    by (simp add: prev_avg_def alpha_def)
qed

text \<open>The claim as stated gives +1 to a tie. With both improvements equal to 50 the
  source computes -1, and a peer without a previous score ends at -0.05.\<close>

theorem binary_value_tie_counterexample:
  "binary_value 50 50 = - 1
   \<and> update_moving_avg [(1, 50)] [(1, 50)] Map.empty 1 = Some (- 0.05)"
  by (simp add: binary_value_def update_avg_def prev_avg_def alpha_def)



section \<open>One peer's evaluation\<close>

subsection \<open>The trial and the revert\<close>




lemma apply_trial_empty: "apply_trial E a Map.empty m tg = Inr (m, tg)"
  by (induction m arbitrary: tg) auto

lemma revert_trial_names:
  "revert_trial a tg m = Inr m2 \<Longrightarrow> map fst m2 = map fst m"
proof (induction m arbitrary: m2)
  case Nil
  then show ?case by simp
next
  case (Cons x m)
  obtain k p where x: "x = (k, p)" by (cases x)
  from Cons.prems x obtain p' rest' where
    r: "revert_trial a tg m = Inr rest'" and m2: "m2 = (k, p') # rest'"
    by (auto split: sum.splits option.splits)
  from Cons.IH [OF r] x m2 show ?case by simp
qed








text \<open>
  In exact arithmetic the sign step cancels: an own-data evaluation that returns has
  found every parameter in the update and leaves the model as it was.
\<close>

lemma apply_trial_other_key:
  "apply_trial E a sd m tg = Inr (m1, tg1) \<Longrightarrow> k \<notin> fst ` set m \<Longrightarrow> tg1 k = tg k"
proof (induction m arbitrary: tg m1 tg1)
  case Nil
  then show ?case by simp
next
  case (Cons x m)
  obtain n p where x: "x = (n, p)" by (cases x)
  from Cons.prems(2) x have nk: "n \<noteq> k" and km: "k \<notin> fst ` set m" by auto
  show ?case
  proof (cases "sd (n @ ''idxs'') \<noteq> None \<and> sd (n @ ''vals'') \<noteq> None")
    case True
    from Cons.prems(1) x True obtain rest' where
      r: "apply_trial E a sd m (tg(n \<mapsto> decode E n p (the (sd (n @ ''idxs''))) (the (sd (n @ ''vals''))))) = Inr (rest', tg1)"
      by (auto simp: Let_def split: sum.splits)
    from Cons.IH [OF r km] nk show ?thesis by simp
  next
    case False
    from Cons.prems(1) x False obtain rest' where
      r: "apply_trial E a sd m tg = Inr (rest', tg1)"
      by (auto simp: Let_def split: sum.splits)
    from Cons.IH [OF r km] show ?thesis .
  qed
qed

lemma sign_step_cancels:
  "length g = length p \<Longrightarrow>
   map2 (\<lambda>x y. x + a * y) (map2 (\<lambda>x y. x - a * y) p (map sgn g)) (map sgn g) = (p :: real list)"
proof (induction p arbitrary: g)
  case Nil
  then show ?case by simp
next
  case (Cons x p)
  then obtain y g' where g: "g = y # g'" by (cases g) auto
  with Cons.prems have "length g' = length p" by simp
  from Cons.IH [OF this] g show ?case by simp
qed

lemma trial_then_revert:
  "apply_trial E a sd m tg = Inr (m1, tg1) \<Longrightarrow> revert_trial a T m1 = Inr m2 \<Longrightarrow>
   distinct (map fst m) \<Longrightarrow> \<forall>n\<in>fst ` set m. T n = tg1 n \<Longrightarrow>
   \<forall>n\<in>fst ` set m. tg n = None \<Longrightarrow> m2 = m"
proof (induction m arbitrary: tg m1 m2)
  case Nil
  then show ?case by simp
next
  case (Cons x m)
  obtain n p where x: "x = (n, p)" by (cases x)
  from Cons.prems(3) x have nm: "n \<notin> fst ` set m" and d: "distinct (map fst m)" by auto
  from Cons.prems(4) x have Tn: "T n = tg1 n" and Tm: "\<forall>k\<in>fst ` set m. T k = tg1 k" by auto
  from Cons.prems(5) x have tn: "tg n = None" and tm: "\<forall>k\<in>fst ` set m. tg k = None" by auto
  show ?case
  proof (cases "sd (n @ ''idxs'') \<noteq> None \<and> sd (n @ ''vals'') \<noteq> None")
    case True
    let ?g = "decode E n p (the (sd (n @ ''idxs''))) (the (sd (n @ ''vals'')))"
    from Cons.prems(1) x True obtain p' rest' where
      s: "sub_inplace n p (map sgn ?g) a = Inr p'"
      and r: "apply_trial E a sd m (tg(n \<mapsto> ?g)) = Inr (rest', tg1)"
      and m1: "m1 = (n, p') # rest'"
      by (auto simp: Let_def split: sum.splits)
    from apply_trial_other_key [OF r nm] Tn have T: "T n = Some ?g" by simp
    from s have len: "length ?g = length p" and p': "p' = map2 (\<lambda>x y. x - a * y) p (map sgn ?g)"
      by (auto simp: sub_inplace_def split: if_splits)
    from Cons.prems(2) m1 T obtain p'' rest'' where
      ad: "add_inplace n p' (map sgn ?g) a = Inr p''"
      and rr: "revert_trial a T rest' = Inr rest''" and m2: "m2 = (n, p'') # rest''"
      by (auto split: sum.splits)
    from ad p' have "p'' = map2 (\<lambda>x y. x + a * y) (map2 (\<lambda>x y. x - a * y) p (map sgn ?g)) (map sgn ?g)"
      by (auto simp: add_inplace_def split: if_splits)
    with sign_step_cancels [OF len] have pp: "p'' = p" by simp
    from tm nm have "\<forall>k\<in>fst ` set m. (tg(n \<mapsto> ?g)) k = None" by auto
    from Cons.IH [OF r rr d Tm this] pp m2 x show ?thesis by simp
  next
    case False
    from Cons.prems(1) x False obtain rest' where
      r: "apply_trial E a sd m tg = Inr (rest', tg1)" and m1: "m1 = (n, p) # rest'"
      by (auto simp: Let_def split: sum.splits)
    from apply_trial_other_key [OF r nm] Tn tn have "T n = None" by simp
    with Cons.prems(2) m1 show ?thesis by simp
  qed
qed

lemma evaluate_peer_restores:
  assumes "evaluate_peer E lr sd before after (st\<lparr>temp_grad := Map.empty\<rparr>) = Inr (st', imp)"
      and "distinct (map fst (model st))"
  shows "model st' = model st"
proof -
  from assms(1) obtain m1 tg1 m2 where
    t: "apply_trial E (lr * 0.25) sd (model st) Map.empty = Inr (m1, tg1)"
    and r: "revert_trial (lr * 0.25) tg1 m1 = Inr m2"
    and st': "st' = st\<lparr>temp_grad := Map.empty\<rparr>\<lparr>model := m2, temp_grad := tg1\<rparr>"
    by (auto simp: evaluate_peer_def Let_def split: sum.splits)
  from trial_then_revert [OF t r assms(2)] have "m2 = model st" by simp
  with st' show ?thesis by simp
qed

subsection \<open>An update without entries\<close>

text \<open>
  Claim C1 says that the trial and its revert leave every parameter as it was, and in
  particular that evaluating an update with no parameter entries changes nothing and
  returns equal losses. In the own-data pass the source does not get that far: for
  every model with at least one parameter, whatever the losses, the evaluation of an
  empty update ends in the KeyError of line 385 on the first parameter, because line
  340 has just bound \<^verbatim>\<open>temp_grad\<close> to the empty dictionary and the trial has added
  nothing to it.
\<close>

theorem empty_update_raises_KeyError:
  "eval_pass E lr True (\<lambda>u. Some Map.empty) loader (u # us) (st\<lparr>model := (n, p) # rest\<rparr>) li
     = Inl (KeyError n)"
  by (simp add: evaluate_peer_def apply_trial_empty)

subsection \<open>The improvement\<close>

text \<open>
  Claim C3 says that the improvement is \<open>100 * (1 - lossAfter / lossBefore)\<close> and is 0,
  not an error, when \<open>lossBefore\<close> is 0. Line 392 divides without a test: with no
  batch the mean of line 337 is 0 and the evaluation of a complete update ends in
  ZeroDivisionError, as does the division for every \<open>lossAfter\<close>; with
  \<open>lossBefore = 2\<close> and \<open>lossAfter = 1\<close> the improvement is 50.
\<close>

theorem zero_loss_before_raises:
  "evaluate_peer demo_env 4 [''widxs'' \<mapsto> [0], ''wvals'' \<mapsto> [3]] [] []
       (demo_state [(''w'', [2])] [(''w'', [2])] Map.empty [1])
     = Inl ZeroDivisionError
   \<and> improvement la 0 = Inl ZeroDivisionError
   \<and> improvement 1 2 = Inr 50"
  by (simp add: demo_env_def demo_state_def evaluate_peer_def sub_inplace_def add_inplace_def
        loss_per_batch_def improvement_def Let_def)

text \<open>
  Claim C10. When the second enumeration of the loader yields no batch while the mean
  loss before the trial is strictly positive, the loss after the trial defaults to 0
  and the evaluation, if the trial and its revert go through, returns the improvement
  100.
\<close>

theorem no_after_batches_improvement_100:
  assumes "apply_trial E (lr * 0.25) sd (model st) (temp_grad st) = Inr (m1, tg1)"
      and "revert_trial (lr * 0.25) tg1 m1 = Inr m2"
      and "0 < loss_per_batch (loss E (model st)) before"
  shows "loss_per_batch (loss E m1) [] = 0
       \<and> evaluate_peer E lr sd before [] st = Inr (st\<lparr>model := m2, temp_grad := tg1\<rparr>, 100)"
  using assms by (simp add: evaluate_peer_def improvement_def loss_per_batch_def)

theorem no_after_batches_improvement_100_witness:
  "loss_per_batch (loss demo_env [(''w'', [1])]) [] = 0
   \<and> evaluate_peer demo_env 4 [''widxs'' \<mapsto> [0], ''wvals'' \<mapsto> [3]] [2] []
       (demo_state [(''w'', [2])] [(''w'', [2])] Map.empty [1])
     = Inr (demo_state [(''w'', [2])] [(''w'', [2])] [''w'' \<mapsto> [3]] [1], 100)"
proof -
  let ?s = "demo_state [(''w'', [2])] [(''w'', [2])] Map.empty [1]"
  have h1: "apply_trial demo_env (4 * 0.25) [''widxs'' \<mapsto> [0], ''wvals'' \<mapsto> [3]]
              (model ?s) (temp_grad ?s) = Inr ([(''w'', [1])], [''w'' \<mapsto> [3]])"
    by (simp add: demo_env_def demo_state_def sub_inplace_def)
  have h2: "revert_trial (4 * 0.25) [''w'' \<mapsto> [3]] [(''w'', [1])] = Inr [(''w'', [2])]"
    by (simp add: add_inplace_def)
  have h3: "0 < loss_per_batch (loss demo_env (model ?s)) [2]"
    by (simp add: demo_env_def demo_state_def loss_per_batch_def)
  have e: "?s\<lparr>model := [(''w'', [2])], temp_grad := [''w'' \<mapsto> [3]]\<rparr>
             = demo_state [(''w'', [2])] [(''w'', [2])] [''w'' \<mapsto> [3]] [1]"
    by (simp add: demo_state_def)
  from no_after_batches_improvement_100 [OF h1 h2 h3] show ?thesis
    by (simp only: e)
qed

subsection \<open>Which model the loss is computed on\<close>




subsection \<open>Trial gradients left over from an earlier evaluation\<close>




section \<open>The window\<close>



















end
